theory Spec2Isabelle
  imports Complex_Main
begin

section \<open>Data model of \<open>src/app/page.tsx\<close>\<close>

text \<open>
  A JavaScript \<open>number\<close> is modelled as a real number extended with the three
  non-finite values; rounding of floating-point arithmetic is not modelled. The
  comparison \<open>lt\<close> is JavaScript's \<open><\<close>: every comparison with \<open>NaN\<close> is false.
\<close>

datatype number = Num real | PosInf | NegInf | NaN

fun lt :: "number \<Rightarrow> number \<Rightarrow> bool" where
  "lt (Num a) (Num b) = (a < b)"
| "lt (Num a) PosInf = True"
| "lt NegInf (Num b) = True"
| "lt NegInf PosInf = True"
| "lt _ _ = False"

text \<open>JavaScript's \<open>>=\<close>.\<close>

fun ge :: "number \<Rightarrow> number \<Rightarrow> bool" where
  "ge NaN b = False"
| "ge a NaN = False"
| "ge a b = (\<not> lt a b)"

text \<open>A face descriptor is a \<open>Float32Array\<close>; a photo is a base64 data URL.\<close>

type_synonym descriptor = "number list"

text \<open>\<open>interface Person\<close> (lines 18-22).\<close>

record person =
  name :: string
  descriptors :: "descriptor list"
  photos :: "string list"

text \<open>The object literal \<open>{ label, distance }\<close> held by \<open>bestMatch\<close> (lines 508, 516).\<close>

record candidate =
  label :: string
  distance :: number

text \<open>
  \<open>faceapi.euclideanDistance\<close> belongs to the face-api.js library and is a parameter
  of the model: a function from two descriptors to a number, or \<open>None\<close> when the
  call throws.
\<close>

type_synonym distanceFn = "descriptor \<Rightarrow> descriptor \<Rightarrow> number option"

section \<open>The matcher: the loops of lines 508-519\<close>

text \<open>The inner loop over \<open>person.descriptors\<close> (lines 513-518).\<close>

fun scanDescriptors ::
  "distanceFn \<Rightarrow> descriptor \<Rightarrow> string \<Rightarrow> descriptor list \<Rightarrow> candidate \<Rightarrow> candidate option" where
  "scanDescriptors ed obs nm [] bestMatch = Some bestMatch"
| "scanDescriptors ed obs nm (d # ds) bestMatch =
     (case ed d obs of
        None \<Rightarrow> None
      | Some x \<Rightarrow>
          scanDescriptors ed obs nm ds
            (if lt x (distance bestMatch) then \<lparr>label = nm, distance = x\<rparr> else bestMatch))"

text \<open>The outer loop over \<open>knownPersons\<close> (lines 511-519).\<close>

fun scanPersons ::
  "distanceFn \<Rightarrow> descriptor \<Rightarrow> person list \<Rightarrow> candidate \<Rightarrow> candidate option" where
  "scanPersons ed obs [] bestMatch = Some bestMatch"
| "scanPersons ed obs (p # ps) bestMatch =
     (case scanDescriptors ed obs (name p) (descriptors p) bestMatch of
        None \<Rightarrow> None
      | Some b \<Rightarrow> scanPersons ed obs ps b)"

text \<open>Line 508 followed by the two loops.\<close>

definition findBestMatch :: "distanceFn \<Rightarrow> descriptor \<Rightarrow> person list \<Rightarrow> candidate option" where
  "findBestMatch ed obs knownPersons =
     scanPersons ed obs knownPersons \<lparr>label = ''unknown'', distance = Num 1\<rparr>"

text \<open>Line 524: \<open>isMatch = bestMatch.distance < 1 - confidenceThreshold\<close>.\<close>

definition isMatch :: "real \<Rightarrow> candidate \<Rightarrow> bool" where
  "isMatch confidenceThreshold bestMatch = lt (distance bestMatch) (Num (1 - confidenceThreshold))"

section \<open>The detection session: \<open>startDetection\<close>, lines 464-550\<close>

text \<open>
  The values of \<open>useState\<close> (lines 34-42) that the detection code reads or sets. One
  value of this record is both the live React state and, as a snapshot, the constants
  of one render of the component.
\<close>

record appState =
  isStreamActive :: bool
  knownPersons :: "person list"
  detectionActive :: bool
  notificationsEnabled :: bool
  lastDetectedPerson :: "string option"
  confidenceThreshold :: real

datatype color = Green | Red

text \<open>
  The persisted record \<open>localStorage["knownPersons"]\<close>. The stored text is modelled
  by the value \<open>JSON.parse\<close> reads from it: an array of objects
  \<open>{name, descriptors, photos}\<close> whose descriptor elements are JSON numbers or
  \<open>null\<close>. \<open>Unreadable\<close> is any text on which \<open>JSON.parse\<close> or the mapping of
  lines 127-131 throws. JSON of another shape is not modelled.
\<close>

record storedPerson =
  storedName :: string
  storedDescriptors :: "real option list list"
  storedPhotos :: "string list"

datatype storedItem = Unreadable | Readable "storedPerson list"

text \<open>
  Everything the modelled code reads and writes: the React state, the storage record
  (\<open>None\<close>: \<open>getItem\<close> returns \<open>null\<close> or the empty string, both skipped by line 123),
  the names passed to \<open>sendNotification\<close> in order, the labelled boxes drawn on the
  canvas with their colour (the percentage in the label text is not modelled), and the
  messages of \<open>console.error\<close>.
\<close>

record world =
  state :: appState
  localStorage :: "storedItem option"
  notifications :: "string list"
  canvas :: "(string \<times> color) list"
  console :: "string list"

definition setLastDetectedPerson :: "string option \<Rightarrow> world \<Rightarrow> world" where
  "setLastDetectedPerson v w = w\<lparr>state := (state w)\<lparr>lastDetectedPerson := v\<rparr>\<rparr>"

text \<open>
  \<open>sendNotification\<close> (lines 578-593): a web notification and a toast, both naming
  the person; one event of the model.
\<close>

definition sendNotification :: "string \<Rightarrow> world \<Rightarrow> world" where
  "sendNotification personName w = w\<lparr>notifications := notifications w @ [personName]\<rparr>"

text \<open>
  Lines 521-544, for one face with its \<open>bestMatch\<close>. The callback given to
  \<open>setInterval\<close> is created once, by the call of \<open>startDetection\<close>, and closes over
  the constants \<open>knownPersons\<close>, \<open>confidenceThreshold\<close>, \<open>notificationsEnabled\<close> and
  \<open>lastDetectedPerson\<close> of the render in which that call happened: the snapshot
  \<open>snap\<close>. \<open>setLastDetectedPerson\<close> changes the live state in \<open>w\<close>, which later
  renders read, and never the snapshot.
\<close>

definition handleMatch :: "appState \<Rightarrow> candidate \<Rightarrow> world \<Rightarrow> world" where
  "handleMatch snap bestMatch w =
     (let m = isMatch (confidenceThreshold snap) bestMatch;
          w1 = w\<lparr>canvas := canvas w @ [(label bestMatch, if m then Green else Red)]\<rparr>
      in if m \<and> label bestMatch \<noteq> ''unknown'' \<and> notificationsEnabled snap then
           (if Some (label bestMatch) \<noteq> lastDetectedPerson snap
            then sendNotification (label bestMatch)
                   (setLastDetectedPerson (Some (label bestMatch)) w1)
            else w1)
         else if \<not> m then setLastDetectedPerson None w1
         else w1)"

text \<open>
  The loop over the detected faces (lines 507-545). A throwing distance call leaves
  the loop for the \<open>catch\<close> of line 546, which logs; what earlier faces did stays.
\<close>

fun processDetections :: "distanceFn \<Rightarrow> appState \<Rightarrow> descriptor list \<Rightarrow> world \<Rightarrow> world" where
  "processDetections ed snap [] w = w"
| "processDetections ed snap (d # ds) w =
     (case findBestMatch ed d (knownPersons snap) of
        None \<Rightarrow> w\<lparr>console := console w @ [''Error during detection:'']\<rparr>
      | Some bestMatch \<Rightarrow> processDetections ed snap ds (handleMatch snap bestMatch w))"

text \<open>
  What one tick of the interval finds: no video or canvas element (line 482), a
  detector that throws (lines 491-494), no drawing context (line 497), or the
  descriptors of the detected faces, in order.
\<close>

datatype frame = NoElement | DetectorError | NoContext | Faces "descriptor list"

text \<open>The interval callback, lines 481-549.\<close>

definition detectionCycle :: "distanceFn \<Rightarrow> appState \<Rightarrow> frame \<Rightarrow> world \<Rightarrow> world" where
  "detectionCycle ed snap fr w =
     (case fr of
        NoElement \<Rightarrow> w
      | DetectorError \<Rightarrow> w\<lparr>console := console w @ [''Error during detection:'']\<rparr>
      | NoContext \<Rightarrow> w
      | Faces detections \<Rightarrow>
          (let w0 = w\<lparr>canvas := []\<rparr>
           in if length detections = 0 then w0
              else processDetections ed snap detections w0))"

text \<open>
  \<open>startDetection\<close> (lines 464-479): refused without a stream or with no known
  person; otherwise the session starts and the callback's snapshot is the render that
  made the call.
\<close>

definition startDetection :: "world \<Rightarrow> world \<times> appState option" where
  "startDetection w =
     (if \<not> isStreamActive (state w) \<or> length (knownPersons (state w)) = 0 then (w, None)
      else (w\<lparr>state := (state w)\<lparr>detectionActive := True\<rparr>\<rparr>, Some (state w)))"

text \<open>The ticks of one session: every tick runs the same callback.\<close>

fun runCycles :: "distanceFn \<Rightarrow> appState \<Rightarrow> frame list \<Rightarrow> world \<Rightarrow> world" where
  "runCycles ed snap [] w = w"
| "runCycles ed snap (fr # frs) w = runCycles ed snap frs (detectionCycle ed snap fr w)"

section \<open>Persistence: the effects of lines 121-136 and 150-161\<close>

text \<open>
  \<open>JSON.stringify\<close> writes a finite number as a numeral and \<open>NaN\<close>, \<open>Infinity\<close> and
  \<open>-Infinity\<close> as \<open>null\<close>.
\<close>

fun toJSON :: "number \<Rightarrow> real option" where
  "toJSON (Num r) = Some r"
| "toJSON _ = None"

text \<open>
  \<open>new Float32Array(Object.values(desc))\<close> converts each element to a number:
  \<open>null\<close> becomes 0. A number that \<open>toJSON\<close> wrote came from a \<open>Float32Array\<close> and
  is read back unchanged; for other stored numbers the rounding to single precision
  is not modelled.
\<close>

fun fromJSON :: "real option \<Rightarrow> number" where
  "fromJSON (Some r) = Num r"
| "fromJSON None = Num 0"

text \<open>Lines 154-159: \<open>serializablePersons\<close>, as the text written by \<open>JSON.stringify\<close>.\<close>

definition serialize :: "person list \<Rightarrow> storedPerson list" where
  "serialize persons =
     map (\<lambda>person. \<lparr>storedName = name person,
                     storedDescriptors = map (\<lambda>desc. map toJSON desc) (descriptors person),
                     storedPhotos = photos person\<rparr>) persons"

text \<open>Lines 127-131: \<open>restoredPersons\<close>.\<close>

definition deserialize :: "storedPerson list \<Rightarrow> person list" where
  "deserialize parsedPersons =
     map (\<lambda>person. \<lparr>name = storedName person,
                     descriptors = map (\<lambda>desc. map fromJSON desc) (storedDescriptors person),
                     photos = storedPhotos person\<rparr>) parsedPersons"

text \<open>The effect of lines 151-161, run after every render in which \<open>knownPersons\<close> changed.\<close>

definition persistEffect :: "world \<Rightarrow> world" where
  "persistEffect w =
     (if length (knownPersons (state w)) > 0
      then w\<lparr>localStorage := Some (Readable (serialize (knownPersons (state w))))\<rparr>
      else w)"

text \<open>\<open>setKnownPersons\<close> with an updater, followed by the effect it triggers.\<close>

definition setKnownPersons :: "(person list \<Rightarrow> person list) \<Rightarrow> world \<Rightarrow> world" where
  "setKnownPersons updater w =
     persistEffect (w\<lparr>state := (state w)\<lparr>knownPersons := updater (knownPersons (state w))\<rparr>\<rparr>)"

text \<open>
  The restore on mount (lines 121-136). The \<open>catch\<close> logs and leaves \<open>knownPersons\<close>
  as it is.
\<close>

definition loadSavedPersons :: "world \<Rightarrow> world" where
  "loadSavedPersons w =
     (case localStorage w of
        None \<Rightarrow> w
      | Some Unreadable \<Rightarrow> w\<lparr>console := console w @ [''Error loading saved persons:'']\<rparr>
      | Some (Readable parsedPersons) \<Rightarrow> setKnownPersons (\<lambda>_. deserialize parsedPersons) w)"

text \<open>The state of a freshly mounted component (lines 31-42) over a given storage.\<close>

definition mount :: "storedItem option \<Rightarrow> world" where
  "mount stored =
     \<lparr>state = \<lparr>isStreamActive = False, knownPersons = [], detectionActive = False,
               notificationsEnabled = False, lastDetectedPerson = None,
               confidenceThreshold = 0.6\<rparr>,
      localStorage = stored, notifications = [], canvas = [], console = []\<rparr>"

section \<open>The registry: enrolment (lines 293-327, 400-434) and \<open>deletePerson\<close>\<close>

text \<open>\<open>Array.prototype.findIndex\<close>; \<open>None\<close> is the result \<open>-1\<close>.\<close>

fun findIndex :: "('a \<Rightarrow> bool) \<Rightarrow> 'a list \<Rightarrow> nat option" where
  "findIndex P [] = None"
| "findIndex P (x # xs) = (if P x then Some 0 else map_option Suc (findIndex P xs))"

text \<open>
  The block shared by \<open>processUploadedImage\<close> (lines 293-327) and \<open>captureFace\<close>
  (lines 400-434). The index is looked up in \<open>known\<close>, the \<open>knownPersons\<close> of the render
  whose handler is running (lines 294, 401); the updater given to \<open>setKnownPersons\<close>
  runs later, on \<open>prev\<close>, the live list. Reading
  \<open>updated[existingPersonIndex].descriptors\<close> beyond the end of \<open>prev\<close> throws a
  TypeError: \<open>None\<close>. The guards of lines 245 and 349 come before the block: a name that
  is blank after \<open>trim\<close> never reaches it.
\<close>

definition enrollFace ::
  "person list \<Rightarrow> string \<Rightarrow> descriptor \<Rightarrow> string \<Rightarrow> person list \<Rightarrow> person list option" where
  "enrollFace known newPersonName faceDescriptor photo prev =
     (case findIndex (\<lambda>p. name p = newPersonName) known of
        Some existingPersonIndex \<Rightarrow>
          (if existingPersonIndex < length prev
           then Some (prev[existingPersonIndex :=
                  (prev ! existingPersonIndex)
                    \<lparr>descriptors := descriptors (prev ! existingPersonIndex) @ [faceDescriptor],
                     photos := photos (prev ! existingPersonIndex) @ [photo]\<rparr>])
           else None)
      | None \<Rightarrow>
          Some (prev @ [\<lparr>name = newPersonName, descriptors = [faceDescriptor],
                         photos = [photo]\<rparr>]))"

text \<open>\<open>deletePerson\<close> (lines 596-602): \<open>prev.filter((_, i) => i !== index)\<close>.\<close>

definition deletePerson :: "nat \<Rightarrow> person list \<Rightarrow> person list" where
  "deletePerson index prev =
     map snd (filter (\<lambda>(i, _). i \<noteq> index) (zip [0..<length prev] prev))"

section \<open>Auxiliary notions for stating the matcher's result\<close>

text \<open>
  The pairs of owner name and descriptor in the order in which the two loops visit
  them: persons in list order, and for each person its descriptors in list order.
\<close>

definition enrolledCandidates :: "person list \<Rightarrow> (string \<times> descriptor) list" where
  "enrolledCandidates ps = concat (map (\<lambda>p. map (\<lambda>d. (name p, d)) (descriptors p)) ps)"

text \<open>One step of the scan on a name and its distance (lines 515-517).\<close>

fun better :: "candidate \<Rightarrow> string \<times> number \<Rightarrow> candidate" where
  "better b c = (if lt (snd c) (distance b) then \<lparr>label = fst c, distance = snd c\<rparr> else b)"

declare better.simps [simp del]

text \<open>
  \<open>firstMinimum cs b\<close>: \<open>b\<close> is the initial candidate when no distance in \<open>cs\<close> is
  below 1, and otherwise the first entry of \<open>cs\<close> whose distance no other entry
  undercuts.
\<close>

definition firstMinimum :: "(string \<times> number) list \<Rightarrow> candidate \<Rightarrow> bool" where
  "firstMinimum cs b =
     (if \<forall>c\<in>set cs. \<not> lt (snd c) (Num 1) then b = \<lparr>label = ''unknown'', distance = Num 1\<rparr>
      else \<exists>i<length cs. b = \<lparr>label = fst (cs ! i), distance = snd (cs ! i)\<rparr> \<and>
             lt (snd (cs ! i)) (Num 1) \<and>
             (\<forall>j<length cs. \<not> lt (snd (cs ! j)) (snd (cs ! i))) \<and>
             (\<forall>j<i. snd (cs ! j) \<noteq> snd (cs ! i)))"

text \<open>The initial candidate, or one below 1.\<close>

definition capped :: "candidate \<Rightarrow> bool" where
  "capped c = (c = \<lparr>label = ''unknown'', distance = Num 1\<rparr> \<or> lt (distance c) (Num 1))"

text \<open>Every element of every descriptor is a finite number.\<close>

fun finiteNumber :: "number \<Rightarrow> bool" where
  "finiteNumber (Num r) = True"
| "finiteNumber _ = False"

definition allFinite :: "person list \<Rightarrow> bool" where
  "allFinite persons = list_all (\<lambda>p. list_all (list_all finiteNumber) (descriptors p)) persons"

section \<open>Facts about the comparison and the scan\<close>

lemma lt_trans: "lt a b \<Longrightarrow> lt b c \<Longrightarrow> lt a c"
  by (cases a; cases b; cases c) auto

lemma lt_irrefl: "\<not> lt a a"
  by (cases a) auto

lemma ge_not_lt: "ge a b \<Longrightarrow> \<not> lt a b"
  by (cases a; cases b) auto

lemma scanDescriptors_capped:
  "capped best \<Longrightarrow> scanDescriptors ed obs nm ds best = Some b \<Longrightarrow> capped b"
proof (induction ds arbitrary: best)
  case Nil
  then show ?case by simp
next
  case (Cons d ds)
  from Cons.prems(2) obtain x where x: "ed d obs = Some x"
    by (auto split: option.splits)
  let ?nb = "if lt x (distance best) then \<lparr>label = nm, distance = x\<rparr> else best"
  have "capped ?nb"
    using Cons.prems(1) by (auto simp: capped_def dest: lt_trans)
  moreover have "scanDescriptors ed obs nm ds ?nb = Some b"
    using Cons.prems(2) x by simp
  ultimately show ?case by (rule Cons.IH)
qed

lemma scanPersons_capped:
  "capped best \<Longrightarrow> scanPersons ed obs ps best = Some b \<Longrightarrow> capped b"
proof (induction ps arbitrary: best)
  case Nil
  then show ?case by simp
next
  case (Cons p ps)
  from Cons.prems(2) obtain b1 where
    b1: "scanDescriptors ed obs (name p) (descriptors p) best = Some b1"
    and rest: "scanPersons ed obs ps b1 = Some b"
    by (auto split: option.splits)
  from Cons.prems(1) b1 have "capped b1" by (rule scanDescriptors_capped)
  then show ?case using rest by (rule Cons.IH)
qed

lemma scanDescriptors_keep:
  "\<forall>d\<in>set ds. \<exists>x. ed d obs = Some x \<and> \<not> lt x (distance best) \<Longrightarrow>
   scanDescriptors ed obs nm ds best = Some best"
  by (induction ds) auto

lemma scanPersons_keep:
  "\<forall>p\<in>set ps. \<forall>d\<in>set (descriptors p). \<exists>x. ed d obs = Some x \<and> \<not> lt x (distance best) \<Longrightarrow>
   scanPersons ed obs ps best = Some best"
  by (induction ps) (auto simp: scanDescriptors_keep)

text \<open>The two loops are one left fold over the candidates in visiting order.\<close>

lemma scanDescriptors_foldl:
  "\<forall>d\<in>set ds. ed d obs = Some (f d) \<Longrightarrow>
   scanDescriptors ed obs nm ds best = Some (foldl better best (map (\<lambda>d. (nm, f d)) ds))"
  by (induction ds arbitrary: best) (simp_all add: better.simps)

lemma scanPersons_foldl:
  "\<forall>p\<in>set ps. \<forall>d\<in>set (descriptors p). ed d obs = Some (f d) \<Longrightarrow>
   scanPersons ed obs ps best =
     Some (foldl better best (map (\<lambda>c. (fst c, f (snd c))) (enrolledCandidates ps)))"
proof (induction ps arbitrary: best)
  case Nil
  then show ?case by (simp add: enrolledCandidates_def)
next
  case (Cons p ps)
  have here: "scanDescriptors ed obs (name p) (descriptors p) best =
      Some (foldl better best (map (\<lambda>d. (name p, f d)) (descriptors p)))"
    using Cons.prems by (intro scanDescriptors_foldl) simp
  have rest: "\<forall>q\<in>set ps. \<forall>d\<in>set (descriptors q). ed d obs = Some (f d)"
    using Cons.prems by simp
  show ?case
    by (simp add: here Cons.IH [OF rest] enrolledCandidates_def comp_def)
qed

lemma foldl_better_firstMinimum:
  "firstMinimum cs (foldl better \<lparr>label = ''unknown'', distance = Num 1\<rparr> cs)"
proof (induction cs rule: rev_induct)
  case Nil
  then show ?case by (simp add: firstMinimum_def)
next
  case (snoc c cs)
  define b where "b = foldl better \<lparr>label = ''unknown'', distance = Num 1\<rparr> cs"
  have step: "foldl better \<lparr>label = ''unknown'', distance = Num 1\<rparr> (cs @ [c]) = better b c"
    by (simp add: b_def)
  have IH: "firstMinimum cs b" using snoc.IH by (simp add: b_def)
  have found: "firstMinimum (cs @ [c]) (better b c)"
    if "\<exists>k<length (cs @ [c]).
          better b c = \<lparr>label = fst ((cs @ [c]) ! k), distance = snd ((cs @ [c]) ! k)\<rparr> \<and>
          lt (snd ((cs @ [c]) ! k)) (Num 1) \<and>
          (\<forall>j<length (cs @ [c]). \<not> lt (snd ((cs @ [c]) ! j)) (snd ((cs @ [c]) ! k))) \<and>
          (\<forall>j<k. snd ((cs @ [c]) ! j) \<noteq> snd ((cs @ [c]) ! k))"
  proof -
    from that obtain k where "k < length (cs @ [c])" "lt (snd ((cs @ [c]) ! k)) (Num 1)"
      by blast
    then have "\<not> (\<forall>c\<in>set (cs @ [c]). \<not> lt (snd c) (Num 1))"
      using nth_mem by blast
    with that show ?thesis unfolding firstMinimum_def by presburger
  qed
  have "firstMinimum (cs @ [c]) (better b c)"
  proof (cases "\<forall>c\<in>set cs. \<not> lt (snd c) (Num 1)")
    case True
    with IH have b: "b = \<lparr>label = ''unknown'', distance = Num 1\<rparr>"
      by (simp add: firstMinimum_def)
    show ?thesis
    proof (cases "lt (snd c) (Num 1)")
      case False
      with True b show ?thesis by (simp add: firstMinimum_def better.simps)
    next
      case below: True
      have cmin: "\<forall>j<length cs. \<not> lt (snd (cs ! j)) (snd c)"
        using True below lt_trans by (metis nth_mem)
      have cnew: "\<forall>j<length cs. snd (cs ! j) \<noteq> snd c"
        using True below by (metis nth_mem)
      show ?thesis
        using below b cmin cnew
        by (intro found exI [of _ "length cs"])
           (auto simp: better.simps nth_append lt_irrefl less_Suc_eq)
    qed
  next
    case False
    with IH obtain i where i: "i < length cs"
      and bi: "b = \<lparr>label = fst (cs ! i), distance = snd (cs ! i)\<rparr>"
      and i1: "lt (snd (cs ! i)) (Num 1)"
      and imin: "\<forall>j<length cs. \<not> lt (snd (cs ! j)) (snd (cs ! i))"
      and ifirst: "\<forall>j<i. snd (cs ! j) \<noteq> snd (cs ! i)"
      unfolding firstMinimum_def by auto
    show ?thesis
    proof (cases "lt (snd c) (snd (cs ! i))")
      case False
      then show ?thesis
        using i bi i1 imin ifirst
        by (intro found exI [of _ i]) (auto simp: better.simps nth_append less_Suc_eq)
    next
      case closer: True
      have c1: "lt (snd c) (Num 1)" using closer i1 by (rule lt_trans)
      have cmin: "\<forall>j<length cs. \<not> lt (snd (cs ! j)) (snd c)"
        using imin closer lt_trans by blast
      have cnew: "\<forall>j<length cs. snd (cs ! j) \<noteq> snd c"
        using imin closer by metis
      show ?thesis
        using bi closer c1 cmin cnew
        by (intro found exI [of _ "length cs"])
           (auto simp: better.simps nth_append lt_irrefl less_Suc_eq)
    qed
  qed
  then show ?case by (simp only: step)
qed

section \<open>The matcher\<close>

text \<open>
  Claim C2 as stated fails: over an empty registry the candidate's distance is the
  initial 1.0 of line 508, not \<open>+infinity\<close>.
\<close>

theorem empty_registry_distance_counterexample:
  "findBestMatch (\<lambda>a b. Some (Num 0)) [Num 0] []
     \<noteq> Some \<lparr>label = ''unknown'', distance = PosInf\<rparr>"
  by (simp add: findBestMatch_def)

text \<open>
  Claim C2, amended: for every observed descriptor, matching against an empty registry
  returns the candidate \<open>{label: "unknown", distance: 1.0}\<close> without failing (the
  distance function is never called), and for every threshold in (0,1) that candidate
  is not a match.
\<close>

theorem empty_registry_unknown_at_one:
  "\<exists>b. findBestMatch ed obs [] = Some b \<and> b = \<lparr>label = ''unknown'', distance = Num 1\<rparr> \<and>
       (0 < t \<and> t < 1 \<longrightarrow> \<not> isMatch t b)"
  by (simp add: findBestMatch_def isMatch_def)

theorem empty_registry_unknown_at_one_witness:
  "(0::real) < 0.6 \<and> (0.6::real) < 1 \<and>
   (\<exists>b. findBestMatch (\<lambda>a b. None) [Num 0] [] = Some b \<and>
        b = \<lparr>label = ''unknown'', distance = Num 1\<rparr> \<and> \<not> isMatch 0.6 b)"
  using empty_registry_unknown_at_one [of "\<lambda>a b. None" "[Num 0]" "0.6"] by simp

text \<open>
  Claim C3 as stated fails: a single enrolled descriptor at distance 1.5 is the minimum
  distance seen, yet the scan returns the initial candidate and not
  \<open>{label: "Ann", distance: 1.5}\<close>.
\<close>

theorem best_above_one_counterexample:
  "findBestMatch (\<lambda>a b. Some (Num 1.5)) [Num 0]
     [\<lparr>name = ''Ann'', descriptors = [[Num 0]], photos = [''p'']\<rparr>]
     = Some \<lparr>label = ''unknown'', distance = Num 1\<rparr> \<and>
   findBestMatch (\<lambda>a b. Some (Num 1.5)) [Num 0]
     [\<lparr>name = ''Ann'', descriptors = [[Num 0]], photos = [''p'']\<rparr>]
     \<noteq> Some \<lparr>label = ''Ann'', distance = Num 1.5\<rparr>"
  by (simp add: findBestMatch_def)

text \<open>
  Claim C3, amended: when no distance call throws, the scan visits every descriptor of
  every person and returns, among the enrolled descriptors whose distance is below 1.0,
  the minimum distance with its owner's name, the first one in visiting order (persons
  in list order, then descriptors in list order) winning a tie; when no enrolled
  descriptor is below 1.0 it returns \<open>{label: "unknown", distance: 1.0}\<close>.
\<close>

theorem matcher_first_minimum_below_one:
  assumes "\<forall>p\<in>set ps. \<forall>d\<in>set (descriptors p). ed d obs = Some (f d)"
  shows "\<exists>b. findBestMatch ed obs ps = Some b \<and>
     firstMinimum (map (\<lambda>c. (fst c, f (snd c))) (enrolledCandidates ps)) b"
proof -
  have "findBestMatch ed obs ps =
      Some (foldl better \<lparr>label = ''unknown'', distance = Num 1\<rparr>
              (map (\<lambda>c. (fst c, f (snd c))) (enrolledCandidates ps)))"
    unfolding findBestMatch_def using assms by (rule scanPersons_foldl)
  then show ?thesis using foldl_better_firstMinimum by simp
qed

text \<open>
  An instance: Ann's second descriptor and Bob's first are both at 0.3, the minimum;
  Ann's comes first.
\<close>

theorem matcher_first_minimum_below_one_witness:
  "findBestMatch (\<lambda>d obs. Some (hd d)) [Num 0]
     [\<lparr>name = ''Ann'', descriptors = [[Num 0.7], [Num 0.3]], photos = [''a1'', ''a2'']\<rparr>,
      \<lparr>name = ''Bob'', descriptors = [[Num 0.3], [Num 2]], photos = [''b1'', ''b2'']\<rparr>]
   = Some \<lparr>label = ''Ann'', distance = Num 0.3\<rparr> \<and>
   firstMinimum [(''Ann'', Num 0.7), (''Ann'', Num 0.3), (''Bob'', Num 0.3), (''Bob'', Num 2)]
     \<lparr>label = ''Ann'', distance = Num 0.3\<rparr>"
proof -
  let ?ps = "[\<lparr>name = ''Ann'', descriptors = [[Num 0.7], [Num 0.3]], photos = [''a1'', ''a2'']\<rparr>,
      \<lparr>name = ''Bob'', descriptors = [[Num 0.3], [Num 2]], photos = [''b1'', ''b2'']\<rparr>]"
  have h: "\<forall>p\<in>set ?ps. \<forall>d\<in>set (descriptors p). (\<lambda>d obs. Some (hd d)) d [Num 0] = Some (hd d)"
    by simp
  have run: "findBestMatch (\<lambda>d obs. Some (hd d)) [Num 0] ?ps
      = Some \<lparr>label = ''Ann'', distance = Num 0.3\<rparr>"
    by (simp add: findBestMatch_def)
  have cs: "map (\<lambda>c. (fst c, hd (snd c))) (enrolledCandidates ?ps)
      = [(''Ann'', Num 0.7), (''Ann'', Num 0.3), (''Bob'', Num 0.3), (''Bob'', Num 2)]"
    by (simp add: enrolledCandidates_def)
  from matcher_first_minimum_below_one
    [where ed = "\<lambda>d obs. Some (hd d)" and obs = "[Num 0]" and f = hd and ps = ?ps] h
  have "\<exists>b. findBestMatch (\<lambda>d obs. Some (hd d)) [Num 0] ?ps = Some b \<and>
     firstMinimum (map (\<lambda>c. (fst c, hd (snd c))) (enrolledCandidates ?ps)) b"
    by blast
  with run cs show ?thesis by simp
qed

text \<open>
  Claim C10: the scan never returns a candidate at distance 1.0 or more under a label
  other than "unknown" (its result is the initial candidate or has a distance below
  1.0, so an enrolled descriptor at 1.0 or more is never selected); when every enrolled
  descriptor is at distance 1.0 or more the result is
  \<open>{label: "unknown", distance: 1.0}\<close>; and that candidate is not a match for any
  threshold in (0,1).
\<close>

theorem matcher_caps_distance_at_one:
  "(findBestMatch ed obs ps = Some b \<longrightarrow>
      (b = \<lparr>label = ''unknown'', distance = Num 1\<rparr> \<or> lt (distance b) (Num 1)) \<and>
      (label b \<noteq> ''unknown'' \<longrightarrow> \<not> ge (distance b) (Num 1))) \<and>
   ((\<forall>p\<in>set ps. \<forall>d\<in>set (descriptors p). \<exists>x. ed d obs = Some x \<and> ge x (Num 1)) \<longrightarrow>
      findBestMatch ed obs ps = Some \<lparr>label = ''unknown'', distance = Num 1\<rparr>) \<and>
   (0 < t \<and> t < 1 \<longrightarrow> \<not> isMatch t \<lparr>label = ''unknown'', distance = Num 1\<rparr>)"
proof (intro conjI impI)
  assume r: "findBestMatch ed obs ps = Some b"
  have "capped \<lparr>label = ''unknown'', distance = Num 1\<rparr>" by (simp add: capped_def)
  with r have c: "capped b" unfolding findBestMatch_def by (metis scanPersons_capped)
  then show "b = \<lparr>label = ''unknown'', distance = Num 1\<rparr> \<or> lt (distance b) (Num 1)"
    by (simp add: capped_def)
  assume "label b \<noteq> ''unknown''"
  with c have "lt (distance b) (Num 1)" by (auto simp: capped_def)
  then show "\<not> ge (distance b) (Num 1)" using ge_not_lt by blast
next
  assume "\<forall>p\<in>set ps. \<forall>d\<in>set (descriptors p). \<exists>x. ed d obs = Some x \<and> ge x (Num 1)"
  then have "\<forall>p\<in>set ps. \<forall>d\<in>set (descriptors p). \<exists>x. ed d obs = Some x \<and>
       \<not> lt x (distance \<lparr>label = ''unknown'', distance = Num 1\<rparr>)"
    using ge_not_lt by fastforce
  then show "findBestMatch ed obs ps = Some \<lparr>label = ''unknown'', distance = Num 1\<rparr>"
    unfolding findBestMatch_def by (rule scanPersons_keep)
next
  assume "0 < t \<and> t < 1"
  then show "\<not> isMatch t \<lparr>label = ''unknown'', distance = Num 1\<rparr>"
    by (simp add: isMatch_def)
qed

theorem matcher_caps_distance_at_one_witness:
  "findBestMatch (\<lambda>d obs. Some (hd d)) [Num 0]
     [\<lparr>name = ''Ann'', descriptors = [[Num 1.5], [Num 0.3]], photos = [''a1'', ''a2'']\<rparr>]
     = Some \<lparr>label = ''Ann'', distance = Num 0.3\<rparr> \<and>
   lt (Num 0.3) (Num 1) \<and> \<not> ge (Num 0.3) (Num 1) \<and>
   ge (Num 1.5) (Num 1) \<and> ge PosInf (Num 1) \<and>
   findBestMatch (\<lambda>d obs. Some (hd d)) [Num 0]
     [\<lparr>name = ''Ann'', descriptors = [[Num 1.5], [PosInf]], photos = [''a1'', ''a2'']\<rparr>]
     = Some \<lparr>label = ''unknown'', distance = Num 1\<rparr> \<and>
   (0::real) < 0.6 \<and> (0.6::real) < 1 \<and>
   \<not> isMatch 0.6 \<lparr>label = ''unknown'', distance = Num 1\<rparr>"
proof -
  have run: "findBestMatch (\<lambda>d obs. Some (hd d)) [Num 0]
     [\<lparr>name = ''Ann'', descriptors = [[Num 1.5], [Num 0.3]], photos = [''a1'', ''a2'']\<rparr>]
     = Some \<lparr>label = ''Ann'', distance = Num 0.3\<rparr>"
    by (simp add: findBestMatch_def)
  have far: "\<forall>p\<in>set [\<lparr>name = ''Ann'', descriptors = [[Num 1.5], [PosInf]],
                          photos = [''a1'', ''a2'']\<rparr>].
      \<forall>d\<in>set (descriptors p). \<exists>x. (\<lambda>d obs. Some (hd d)) d [Num 0] = Some x \<and> ge x (Num 1)"
    by simp
  have t: "(0::real) < 0.6 \<and> (0.6::real) < 1" by simp
  from matcher_caps_distance_at_one [of "\<lambda>d obs. Some (hd d)" "[Num 0]"
      "[\<lparr>name = ''Ann'', descriptors = [[Num 1.5], [Num 0.3]], photos = [''a1'', ''a2'']\<rparr>]"
      "\<lparr>label = ''Ann'', distance = Num 0.3\<rparr>" "0.6"] run t
  have first: "lt (Num 0.3) (Num 1) \<and> \<not> ge (Num 0.3) (Num 1) \<and>
      \<not> isMatch 0.6 \<lparr>label = ''unknown'', distance = Num 1\<rparr>"
    by simp
  from matcher_caps_distance_at_one [of "\<lambda>d obs. Some (hd d)" "[Num 0]"
      "[\<lparr>name = ''Ann'', descriptors = [[Num 1.5], [PosInf]], photos = [''a1'', ''a2'']\<rparr>]"] far
  have second: "findBestMatch (\<lambda>d obs. Some (hd d)) [Num 0]
     [\<lparr>name = ''Ann'', descriptors = [[Num 1.5], [PosInf]], photos = [''a1'', ''a2'']\<rparr>]
     = Some \<lparr>label = ''unknown'', distance = Num 1\<rparr>"
    by blast
  from run first second t show ?thesis by simp
qed

section \<open>The decision and the detection cycle\<close>

text \<open>
  Claim C4 as stated fails: a candidate labelled "unknown" at distance 0.2 (a person
  enrolled under that name) has \<open>isMatch\<close> true at threshold 0.6.
\<close>

theorem unknown_label_counterexample:
  "isMatch 0.6 \<lparr>label = ''unknown'', distance = Num 0.2\<rparr>"
  by (simp add: isMatch_def)

text \<open>
  Claim C4, amended: for every candidate and every threshold,
  \<open>isMatch = (distance < 1 - threshold)\<close>, whatever the label, and the box is drawn
  green exactly when \<open>isMatch\<close> holds; a candidate at distance 0.3 is matched at
  threshold 0.6 and unmatched at 0.8; a candidate labelled "unknown" never causes a
  notification, whatever its distance; and the scan's initial candidate, "unknown" at
  1.0, is unmatched for every threshold in (0,1).
\<close>

theorem decision_policy:
  "isMatch t c = lt (distance c) (Num (1 - t)) \<and>
   isMatch 0.6 \<lparr>label = n, distance = Num 0.3\<rparr> \<and>
   \<not> isMatch 0.8 \<lparr>label = n, distance = Num 0.3\<rparr> \<and>
   canvas (handleMatch snap c w) =
     canvas w @ [(label c, if isMatch (confidenceThreshold snap) c then Green else Red)] \<and>
   (label c = ''unknown'' \<longrightarrow> notifications (handleMatch snap c w) = notifications w) \<and>
   (0 < t \<and> t < 1 \<longrightarrow> \<not> isMatch t \<lparr>label = ''unknown'', distance = Num 1\<rparr>)"
  by (simp add: isMatch_def handleMatch_def Let_def setLastDetectedPerson_def
      sendNotification_def)

theorem decision_policy_witness:
  "(0::real) < 0.6 \<and> (0.6::real) < 1 \<and>
   isMatch 0.6 \<lparr>label = ''unknown'', distance = Num 0.2\<rparr> \<and>
   isMatch 0.6 \<lparr>label = ''Ann'', distance = Num 0.3\<rparr> \<and>
   \<not> isMatch 0.8 \<lparr>label = ''Ann'', distance = Num 0.3\<rparr> \<and>
   canvas (handleMatch
       \<lparr>isStreamActive = True, knownPersons = [], detectionActive = False,
        notificationsEnabled = True, lastDetectedPerson = None, confidenceThreshold = 0.6\<rparr>
       \<lparr>label = ''unknown'', distance = Num 0.2\<rparr> (mount None))
     = [(''unknown'', Green)] \<and>
   notifications (handleMatch
       \<lparr>isStreamActive = True, knownPersons = [], detectionActive = False,
        notificationsEnabled = True, lastDetectedPerson = None, confidenceThreshold = 0.6\<rparr>
       \<lparr>label = ''unknown'', distance = Num 0.2\<rparr> (mount None))
     = [] \<and>
   \<not> isMatch 0.6 \<lparr>label = ''unknown'', distance = Num 1\<rparr>"
  using decision_policy [of "0.6" "\<lparr>label = ''unknown'', distance = Num 0.2\<rparr>" "''Ann''"
      "\<lparr>isStreamActive = True, knownPersons = [], detectionActive = False,
        notificationsEnabled = True, lastDetectedPerson = None, confidenceThreshold = 0.6\<rparr>"
      "mount None"]
  by (simp add: mount_def)

text \<open>
  Claim C5 as stated fails: a tick with zero detected faces leaves
  \<open>lastDetectedPerson\<close> as it was, here "Ann".
\<close>

theorem no_faces_counterexample:
  "lastDetectedPerson (state (detectionCycle (\<lambda>a b. Some (Num 0.3))
     \<lparr>isStreamActive = True,
      knownPersons = [\<lparr>name = ''Ann'', descriptors = [[Num 0]], photos = [''p'']\<rparr>],
      detectionActive = False, notificationsEnabled = True,
      lastDetectedPerson = None, confidenceThreshold = 0.6\<rparr>
     (Faces [])
     \<lparr>state = \<lparr>isStreamActive = True,
               knownPersons = [\<lparr>name = ''Ann'', descriptors = [[Num 0]], photos = [''p'']\<rparr>],
               detectionActive = True, notificationsEnabled = True,
               lastDetectedPerson = Some ''Ann'', confidenceThreshold = 0.6\<rparr>,
      localStorage = None, notifications = [''Ann''], canvas = [], console = []\<rparr>))
   \<noteq> None"
  by (simp add: detectionCycle_def)

text \<open>
  Claim C5, amended: a detection cycle in which the detector reports zero faces clears
  the canvas and ends without sending a notification and without changing
  \<open>lastDetectedPerson\<close> or any other state.
\<close>

theorem no_faces_cycle:
  "notifications (detectionCycle ed snap (Faces []) w) = notifications w \<and>
   state (detectionCycle ed snap (Faces []) w) = state w \<and>
   canvas (detectionCycle ed snap (Faces []) w) = []"
  by (simp add: detectionCycle_def)

lemma startDetection_snapshot:
  "isStreamActive (state w) \<Longrightarrow> knownPersons (state w) \<noteq> [] \<Longrightarrow>
   startDetection w = (w\<lparr>state := (state w)\<lparr>detectionActive := True\<rparr>\<rparr>, Some (state w))"
  by (simp add: startDetection_def)

text \<open>
  Claim C1 on the code: a session started with notifications enabled and no person
  announced yet, over a registry holding Ann, sees Ann's face at distance 0.3 in three
  consecutive ticks. Every tick compares the name with the \<open>lastDetectedPerson\<close> of
  the snapshot, which stays \<open>null\<close>, so every tick notifies: three notifications, where
  the claim says one. The live state holds "Ann" from the first tick on.
\<close>

theorem three_matching_cycles_notify_three_times:
  "notifications
     (runCycles (\<lambda>a b. Some (Num 0.3))
        \<lparr>isStreamActive = True,
         knownPersons = [\<lparr>name = ''Ann'', descriptors = [[Num 0]], photos = [''p'']\<rparr>],
         detectionActive = False, notificationsEnabled = True,
         lastDetectedPerson = None, confidenceThreshold = 0.6\<rparr>
        [Faces [[Num 0]], Faces [[Num 0]], Faces [[Num 0]]]
        \<lparr>state = \<lparr>isStreamActive = True,
               knownPersons = [\<lparr>name = ''Ann'', descriptors = [[Num 0]], photos = [''p'']\<rparr>],
               detectionActive = True, notificationsEnabled = True,
               lastDetectedPerson = None, confidenceThreshold = 0.6\<rparr>,
         localStorage = None, notifications = [], canvas = [], console = []\<rparr>)
   = [''Ann'', ''Ann'', ''Ann''] \<and>
   lastDetectedPerson (state
     (runCycles (\<lambda>a b. Some (Num 0.3))
        \<lparr>isStreamActive = True,
         knownPersons = [\<lparr>name = ''Ann'', descriptors = [[Num 0]], photos = [''p'']\<rparr>],
         detectionActive = False, notificationsEnabled = True,
         lastDetectedPerson = None, confidenceThreshold = 0.6\<rparr>
        [Faces [[Num 0]]]
        \<lparr>state = \<lparr>isStreamActive = True,
               knownPersons = [\<lparr>name = ''Ann'', descriptors = [[Num 0]], photos = [''p'']\<rparr>],
               detectionActive = True, notificationsEnabled = True,
               lastDetectedPerson = None, confidenceThreshold = 0.6\<rparr>,
         localStorage = None, notifications = [], canvas = [], console = []\<rparr>))
   = Some ''Ann''"
  by (simp add: detectionCycle_def handleMatch_def isMatch_def findBestMatch_def
      setLastDetectedPerson_def sendNotification_def Let_def)

section \<open>Enrolment\<close>

lemma findIndex_Some:
  "findIndex P xs = Some i \<Longrightarrow> i < length xs \<and> P (xs ! i) \<and> (\<forall>j<i. \<not> P (xs ! j))"
proof (induction xs arbitrary: i)
  case Nil
  then show ?case by simp
next
  case (Cons x xs)
  show ?case
  proof (cases "P x")
    case True
    with Cons.prems show ?thesis by simp
  next
    case False
    with Cons.prems obtain k where k: "findIndex P xs = Some k" and i: "i = Suc k"
      by auto
    from Cons.IH [OF k] False i show ?thesis
      by (auto simp: nth_Cons split: nat.splits)
  qed
qed

lemma findIndex_None: "findIndex P xs = None \<longleftrightarrow> (\<forall>x\<in>set xs. \<not> P x)"
  by (induction xs) auto

text \<open>
  From a render that is up to date, where the list read by \<open>findIndex\<close> is the list the
  updater receives, the block appends to the first person of the name, or appends a new
  person.
\<close>

lemma enrollFace_new:
  assumes "n \<notin> name ` set r"
  shows "enrollFace r n e p r = Some (r @ [\<lparr>name = n, descriptors = [e], photos = [p]\<rparr>])"
proof -
  have "findIndex (\<lambda>q. name q = n) r = None"
    using assms by (auto simp: findIndex_None)
  then show ?thesis by (simp add: enrollFace_def)
qed

lemma enrollFace_existing:
  assumes "n \<in> name ` set r"
  shows "\<exists>i<length r. name (r ! i) = n \<and> (\<forall>j<i. name (r ! j) \<noteq> n) \<and>
     enrollFace r n e p r =
       Some (r[i := (r ! i)\<lparr>descriptors := descriptors (r ! i) @ [e],
                             photos := photos (r ! i) @ [p]\<rparr>])"
proof -
  have "findIndex (\<lambda>q. name q = n) r \<noteq> None"
    using assms by (auto simp: findIndex_None)
  then obtain i where i: "findIndex (\<lambda>q. name q = n) r = Some i" by blast
  have props: "i < length r \<and> name (r ! i) = n \<and> (\<forall>j<i. name (r ! j) \<noteq> n)"
    using findIndex_Some [OF i] by simp
  have "enrollFace r n e p r =
       Some (r[i := (r ! i)\<lparr>descriptors := descriptors (r ! i) @ [e],
                             photos := photos (r ! i) @ [p]\<rparr>])"
    using i props by (simp add: enrollFace_def)
  with props show ?thesis by blast
qed

text \<open>
  Claim C6 on the code: with the registry empty and the name "Ann" entered, Capture
  Face is clicked twice before the first detection resolves (the button of line 780 is
  not disabled meanwhile, unlike the upload button of line 841). Both handlers belong
  to the same render, so both look "Ann" up in its empty \<open>knownPersons\<close> and both take
  the branch that creates a person: the registry ends with two persons named "Ann" of
  one descriptor each, where the claim says one person with both.
\<close>

theorem two_captures_from_one_render_create_two_persons:
  "enrollFace [] ''Ann'' [Num 1] ''p1'' []
     = Some [\<lparr>name = ''Ann'', descriptors = [[Num 1]], photos = [''p1'']\<rparr>] \<and>
   enrollFace [] ''Ann'' [Num 2] ''p2''
       [\<lparr>name = ''Ann'', descriptors = [[Num 1]], photos = [''p1'']\<rparr>]
     = Some [\<lparr>name = ''Ann'', descriptors = [[Num 1]], photos = [''p1'']\<rparr>,
             \<lparr>name = ''Ann'', descriptors = [[Num 2]], photos = [''p2'']\<rparr>] \<and>
   enrollFace [] ''Ann'' [Num 2] ''p2''
       [\<lparr>name = ''Ann'', descriptors = [[Num 1]], photos = [''p1'']\<rparr>]
     \<noteq> Some [\<lparr>name = ''Ann'', descriptors = [[Num 1], [Num 2]], photos = [''p1'', ''p2'']\<rparr>]"
  by (simp add: enrollFace_def)

section \<open>Serialization and persistence\<close>

lemma fromJSON_toJSON: "finiteNumber x \<Longrightarrow> fromJSON (toJSON x) = x"
  by (cases x) simp_all

lemma descriptor_roundtrip:
  "list_all finiteNumber desc \<Longrightarrow> map (fromJSON \<circ> toJSON) desc = desc"
  by (induction desc) (simp_all add: fromJSON_toJSON)

lemma descriptors_roundtrip:
  "list_all (list_all finiteNumber) ds \<Longrightarrow> map (map (fromJSON \<circ> toJSON)) ds = ds"
  by (induction ds) (simp_all add: descriptor_roundtrip)

lemma deserialize_serialize:
  "allFinite r \<Longrightarrow> deserialize (serialize r) = r"
proof (induction r)
  case Nil
  then show ?case by (simp add: deserialize_def serialize_def)
next
  case (Cons p r)
  have here: "map (map (fromJSON \<circ> toJSON)) (descriptors p) = descriptors p"
    using Cons.prems by (intro descriptors_roundtrip) (simp add: allFinite_def)
  have "allFinite r" using Cons.prems by (simp add: allFinite_def)
  then have rest: "deserialize (serialize r) = r" by (rule Cons.IH)
  have "deserialize (serialize (p # r)) =
      \<lparr>name = name p, descriptors = map (map (fromJSON \<circ> toJSON)) (descriptors p),
       photos = photos p\<rparr> # deserialize (serialize r)"
    by (simp add: deserialize_def serialize_def)
  also have "\<dots> = p # r" by (simp only: here rest) simp
  finally show ?case .
qed

text \<open>
  What a change of the registry leaves in the storage: the new registry when it is not
  empty, and otherwise what was there before.
\<close>

lemma setKnownPersons_storage:
  "localStorage (setKnownPersons updater w) =
     (if updater (knownPersons (state w)) \<noteq> []
      then Some (Readable (serialize (updater (knownPersons (state w)))))
      else localStorage w)"
  by (simp add: setKnownPersons_def persistEffect_def)

lemma setKnownPersons_registry:
  "knownPersons (state (setKnownPersons updater w)) = updater (knownPersons (state w))"
  by (simp add: setKnownPersons_def persistEffect_def)

text \<open>
  A persisted registry that is not empty and holds finite numbers only is what the
  next mount restores.
\<close>

lemma persisted_registry_restored:
  assumes "allFinite r" and "r \<noteq> []"
  shows "knownPersons (state (loadSavedPersons
           (mount (localStorage (setKnownPersons (\<lambda>prev. r) w))))) = r"
proof -
  have "localStorage (setKnownPersons (\<lambda>prev. r) w) = Some (Readable (serialize r))"
    using assms(2) by (simp add: setKnownPersons_storage)
  moreover have "deserialize (serialize r) = r"
    using assms(1) by (rule deserialize_serialize)
  ultimately show ?thesis
    by (simp add: loadSavedPersons_def mount_def setKnownPersons_registry)
qed

text \<open>
  Claim C7 as stated fails: a descriptor element \<open>Infinity\<close> is written as \<open>null\<close> and
  read back as 0.
\<close>

theorem roundtrip_counterexample:
  "deserialize (serialize [\<lparr>name = ''Ann'', descriptors = [[PosInf]], photos = [''p'']\<rparr>])
     \<noteq> [\<lparr>name = ''Ann'', descriptors = [[PosInf]], photos = [''p'']\<rparr>]"
  by (simp add: deserialize_def serialize_def)

text \<open>
  Claim C7, amended: for every registry whose descriptor elements are all finite
  numbers, serializing and then deserializing gives the registry back: the same names
  in the same order, the same descriptors with the same elements in the same order,
  the same photos. Such a registry, when it is not empty, is written by the persist
  effect and restored equal by the next mount.
\<close>

theorem roundtrip_finite:
  "allFinite r \<Longrightarrow>
   deserialize (serialize r) = r \<and>
   (r \<noteq> [] \<longrightarrow>
      knownPersons (state (loadSavedPersons
        (mount (localStorage (setKnownPersons (\<lambda>prev. r) w))))) = r)"
  using deserialize_serialize persisted_registry_restored by blast

theorem roundtrip_finite_witness:
  "allFinite [\<lparr>name = ''Ann'', descriptors = [[Num 0.5, Num 1], [Num 2, Num 3]],
                photos = [''p1'', ''p2'']\<rparr>] \<and>
   deserialize (serialize [\<lparr>name = ''Ann'', descriptors = [[Num 0.5, Num 1], [Num 2, Num 3]],
                photos = [''p1'', ''p2'']\<rparr>])
     = [\<lparr>name = ''Ann'', descriptors = [[Num 0.5, Num 1], [Num 2, Num 3]],
                photos = [''p1'', ''p2'']\<rparr>] \<and>
   knownPersons (state (loadSavedPersons (mount (localStorage (setKnownPersons
       (\<lambda>prev. [\<lparr>name = ''Ann'', descriptors = [[Num 0.5, Num 1], [Num 2, Num 3]],
                photos = [''p1'', ''p2'']\<rparr>]) (mount None))))))
     = [\<lparr>name = ''Ann'', descriptors = [[Num 0.5, Num 1], [Num 2, Num 3]],
                photos = [''p1'', ''p2'']\<rparr>]"
proof -
  have h: "allFinite [\<lparr>name = ''Ann'', descriptors = [[Num 0.5, Num 1], [Num 2, Num 3]],
                photos = [''p1'', ''p2'']\<rparr>]"
    by (simp add: allFinite_def)
  from h roundtrip_finite [OF h, of "mount None"] show ?thesis by simp
qed

text \<open>
  Claim C8 as stated fails: a stored record whose two descriptors have lengths 2 and 1
  and which holds no photo is restored as it is, and nothing is logged.
\<close>

theorem corrupt_state_counterexample:
  "knownPersons (state (loadSavedPersons (mount (Some (Readable
      [\<lparr>storedName = ''Ann'', storedDescriptors = [[Some 1, Some 2], [Some 3]],
         storedPhotos = []\<rparr>])))))
   = [\<lparr>name = ''Ann'', descriptors = [[Num 1, Num 2], [Num 3]], photos = []\<rparr>] \<and>
   console (loadSavedPersons (mount (Some (Readable
      [\<lparr>storedName = ''Ann'', storedDescriptors = [[Some 1, Some 2], [Some 3]],
         storedPhotos = []\<rparr>])))) = []"
  by (simp add: loadSavedPersons_def mount_def setKnownPersons_def persistEffect_def
      deserialize_def)

text \<open>
  Claim C8, amended: restoring checks neither the descriptors' lengths nor that there
  are as many photos as descriptors: every readable record is restored as it is, shape
  included, and nothing is logged; when reading the record throws, the error is caught
  and logged with \<open>console.error\<close>, and the registry stays empty.
\<close>

theorem restore_without_validation:
  "knownPersons (state (loadSavedPersons (mount (Some (Readable ps))))) = deserialize ps \<and>
   console (loadSavedPersons (mount (Some (Readable ps)))) = [] \<and>
   map (\<lambda>p. map length (descriptors p)) (deserialize ps) =
     map (\<lambda>p. map length (storedDescriptors p)) ps \<and>
   map (\<lambda>p. length (photos p)) (deserialize ps) = map (\<lambda>p. length (storedPhotos p)) ps \<and>
   knownPersons (state (loadSavedPersons (mount (Some Unreadable)))) = [] \<and>
   console (loadSavedPersons (mount (Some Unreadable))) = [''Error loading saved persons:'']"
  by (simp add: loadSavedPersons_def mount_def setKnownPersons_def persistEffect_def
      deserialize_def comp_def)

text \<open>
  Claim C9 on the code: "Ann" is enrolled into the empty registry, which is persisted;
  then she is deleted. The registry is empty, the effect's guard
  \<open>knownPersons.length > 0\<close> skips the write, and the stored record still holds Ann:
  the next mount restores her.
\<close>

theorem deleting_last_person_is_not_persisted:
  "knownPersons (state (setKnownPersons (deletePerson 0)
      (setKnownPersons
         (\<lambda>prev. prev @ [\<lparr>name = ''Ann'', descriptors = [[Num 1]], photos = [''p'']\<rparr>])
         (mount None)))) = [] \<and>
   localStorage (setKnownPersons (deletePerson 0)
      (setKnownPersons
         (\<lambda>prev. prev @ [\<lparr>name = ''Ann'', descriptors = [[Num 1]], photos = [''p'']\<rparr>])
         (mount None)))
     = Some (Readable (serialize [\<lparr>name = ''Ann'', descriptors = [[Num 1]], photos = [''p'']\<rparr>])) \<and>
   localStorage (setKnownPersons (deletePerson 0)
      (setKnownPersons
         (\<lambda>prev. prev @ [\<lparr>name = ''Ann'', descriptors = [[Num 1]], photos = [''p'']\<rparr>])
         (mount None)))
     \<noteq> Some (Readable (serialize [])) \<and>
   knownPersons (state (loadSavedPersons (mount (localStorage (setKnownPersons (deletePerson 0)
      (setKnownPersons
         (\<lambda>prev. prev @ [\<lparr>name = ''Ann'', descriptors = [[Num 1]], photos = [''p'']\<rparr>])
         (mount None)))))))
     = [\<lparr>name = ''Ann'', descriptors = [[Num 1]], photos = [''p'']\<rparr>]"
  by (simp add: loadSavedPersons_def mount_def setKnownPersons_def persistEffect_def
      deserialize_def serialize_def deletePerson_def)

end
